theory Spec2Isabelle
  imports Main "HOL-Library.Log_Nat" "HOL-Library.AList"
begin

section \<open>Python values used by the bot\<close>

text \<open>
  Strings are byte lists: a Python \<open>str\<close> is represented by its UTF-8 encoding.
  Substring search and prefix tests agree on code points and on their UTF-8 bytes,
  so \<open>startswith\<close> and \<open>replace\<close> below act on the bytes.
\<close>

definition py_startswith :: "string \<Rightarrow> string \<Rightarrow> bool" where
  "py_startswith s p = (take (length p) s = p)"

text \<open>
  \<open>s.replace(old, "")\<close>: every non-overlapping occurrence of \<open>old\<close>, scanning from
  the left, is removed. The source only ever replaces by the empty string.
\<close>

function py_replace_empty :: "string \<Rightarrow> string \<Rightarrow> string" where
  "py_replace_empty old [] = []"
| "py_replace_empty old (c # cs) =
     (if old \<noteq> [] \<and> py_startswith (c # cs) old
      then py_replace_empty old (drop (length old) (c # cs))
      else c # py_replace_empty old cs)"
  by pat_completeness auto
termination
  by (relation "measure (\<lambda>(old, s). length s)") (auto simp: py_startswith_def)

text \<open>\<open>str(n)\<close> for a Python int.\<close>

fun digits :: "nat \<Rightarrow> string" where
  "digits n =
     (if n < 10 then [''0123456789'' ! n]
      else digits (n div 10) @ [''0123456789'' ! (n mod 10)])"

declare digits.simps [simp del]

definition py_str_int :: "int \<Rightarrow> string" where
  "py_str_int i = (if i < 0 then CHR ''-'' # digits (nat (- i)) else digits (nat i))"

text \<open>
  An identifier is an int when it was read from a JSON identifier list and a str when
  it was cut out of a callback token; f-strings render it with \<open>str\<close>.
\<close>

datatype pyid = IdInt int | IdStr string

fun py_str :: "pyid \<Rightarrow> string" where
  "py_str (IdInt i) = py_str_int i"
| "py_str (IdStr s) = s"

subsection \<open>Floats\<close>

text \<open>
  A finite Python float is represented by the rational number it denotes. \<open>fl\<close> rounds
  a rational to the nearest number with a 53-bit significand, ties to even (the
  exponent range is not bounded: overflow to infinity and subnormal numbers are
  outside the model). Float subtraction is \<open>fl (a - b)\<close>; \<open>abs\<close> is exact.
\<close>

definition round_half_even :: "rat \<Rightarrow> int" where
  "round_half_even x =
     (let f = \<lfloor>x\<rfloor>; d = x - of_int f
      in if d < 1 / 2 then f else if 1 / 2 < d then f + 1 else if even f then f else f + 1)"

definition ilog2 :: "rat \<Rightarrow> int" where
  "ilog2 a =
     (if 1 \<le> a then int (floorlog 2 (nat \<lfloor>a\<rfloor>)) - 1
      else - int (floorlog 2 (nat (\<lceil>1 / a\<rceil> - 1))))"

definition scale2 :: "rat \<Rightarrow> int \<Rightarrow> rat" where
  "scale2 a e = (if 0 \<le> e then a * 2 ^ nat e else a / 2 ^ nat (- e))"

definition fl :: "rat \<Rightarrow> rat" where
  "fl x =
     (if x = 0 then 0
      else let a = \<bar>x\<bar>;
               e = ilog2 a - 52;
               m = round_half_even (scale2 a (- e));
               r = scale2 (of_int m) e
           in if x < 0 then - r else r)"

text \<open>
  \<open>f"{x:.2f}"\<close>: the exact value of the float, rounded half-even to two decimals.
\<close>

definition fmt_2f :: "rat \<Rightarrow> string" where
  "fmt_2f x =
     (let n = round_half_even (\<bar>x\<bar> * 100);
          body = digits (nat (n div 100)) @ ''.'' @
                 [''0123456789'' ! nat (n mod 100 div 10), ''0123456789'' ! nat (n mod 10)]
      in if x < 0 then CHR ''-'' # body else body)"

text \<open>
  The value stored under \<open>'MolecularWeight'\<close> is whatever the upstream JSON held, or
  the sentinel string. The source applies two operations to it, \<open>!= 'N/A'\<close> and
  \<open>float()\<close>, and every value falls into one of three classes:
  \<^item> \<open>NA\<close>: the string \<open>'N/A'\<close>;
  \<^item> \<open>Numeric q\<close>: a value other than \<open>'N/A'\<close> that \<open>float()\<close> converts to the float \<open>q\<close>;
  \<^item> \<open>NonNumeric\<close>: a value other than \<open>'N/A'\<close> on which \<open>float()\<close> raises.
\<close>

datatype mw = NA | Numeric rat | NonNumeric

datatype exn = ValueError | KeyError | AttributeError

section \<open>The compound database, as the client sees it\<close>

text \<open>
  The part of \<open>data['PC_Compounds'][0]\<close> that \<open>search_compound\<close> reads:
  \<open>atoms.fstring\<close>, \<open>coords[0].weight.value\<close> (\<open>None\<close> when the path is absent) and
  the \<open>(label, sval)\<close> pairs of \<open>props\<close>, in document order.
\<close>

record pc_compound =
  atoms_fstring :: "string option"
  coords_weight_value :: "mw option"
  props_svals :: "(string \<times> string) list"

datatype body = CidList "int list" | Compounds pc_compound | OtherBody

text \<open>
  \<open>requests.get\<close> either raises (timeout, connection error) or returns a response
  with a status code and a body. The environment of one handled update answers every
  URL and gives the clock reading of \<open>datetime.now().timestamp()\<close>.
\<close>

datatype response = RequestException | Response nat body

record env =
  http_get :: "string \<Rightarrow> response"
  now_timestamp :: rat

record compound =
  CID :: pyid
  Name :: string
  MolecularFormula :: string
  MolecularWeight :: mw
  IUPACName :: string
  CanonicalSMILES :: string
  InChIKey :: string
  image_url :: string
  pubchem_url :: string

definition BASE_URL :: string where
  "BASE_URL = ''https://pubchem.ncbi.nlm.nih.gov/rest/pug''"

definition dict_get :: "('k \<times> 'v) list \<Rightarrow> 'k \<Rightarrow> 'v \<Rightarrow> 'v" where
  "dict_get d k dflt = (case map_of d k of None \<Rightarrow> dflt | Some v \<Rightarrow> v)"

text \<open>
  \<open>PubChemClient.search_compound\<close>. Every exception inside the \<open>try\<close> (a failed
  request, a body of the wrong shape, an empty identifier list) gives \<open>None\<close>. The
  dict comprehension over \<open>props\<close> keeps the last value of a repeated label.
\<close>

definition search_compound :: "env \<Rightarrow> pyid \<Rightarrow> bool \<Rightarrow> compound option" where
  "search_compound e query by_cid =
     (case (if by_cid then Some query
            else (case http_get e (BASE_URL @ ''/compound/name/'' @ py_str query @ ''/cids/JSON'') of
                    RequestException \<Rightarrow> None
                  | Response code b \<Rightarrow>
                      if code \<noteq> 200 then None
                      else (case b of CidList (c # _) \<Rightarrow> Some (IdInt c) | _ \<Rightarrow> None))) of
        None \<Rightarrow> None
      | Some cid \<Rightarrow>
          (case http_get e (BASE_URL @ ''/compound/cid/'' @ py_str cid @ ''/JSON'') of
             RequestException \<Rightarrow> None
           | Response code b \<Rightarrow>
               if code \<noteq> 200 then None
               else (case b of
                       Compounds pc \<Rightarrow>
                         let props = rev (props_svals pc) in
                         Some \<lparr>CID = cid,
                               Name = (if \<not> by_cid then py_str query
                                       else dict_get props ''IUPAC Name'' (''CID '' @ py_str cid)),
                               MolecularFormula =
                                 (case atoms_fstring pc of None \<Rightarrow> ''N/A'' | Some f \<Rightarrow> f),
                               MolecularWeight =
                                 (case coords_weight_value pc of None \<Rightarrow> NA | Some w \<Rightarrow> w),
                               IUPACName = dict_get props ''IUPAC Name'' ''N/A'',
                               CanonicalSMILES = dict_get props ''SMILES'' ''N/A'',
                               InChIKey = dict_get props ''InChIKey'' ''N/A'',
                               image_url = BASE_URL @ ''/compound/cid/'' @ py_str cid @ ''/PNG'',
                               pubchem_url =
                                 ''https://pubchem.ncbi.nlm.nih.gov/compound/'' @ py_str cid\<rparr>
                     | _ \<Rightarrow> None)))"

definition get_random_compound :: "env \<Rightarrow> compound option" where
  "get_random_compound e =
     (case http_get e (BASE_URL @ ''/compound/random/random.cid/JSON'') of
        RequestException \<Rightarrow> None
      | Response code b \<Rightarrow>
          if code = 200
          then (case b of CidList (c # _) \<Rightarrow> search_compound e (IdInt c) True | _ \<Rightarrow> None)
          else None)"

definition get_similar_compounds :: "env \<Rightarrow> string \<Rightarrow> nat \<Rightarrow> int list" where
  "get_similar_compounds e cid limit =
     (case http_get e (BASE_URL @ ''/compound/fastsimilarity_2d/cid/'' @ cid @
                        ''/cids/JSON?Threshold=90&MaxRecords='' @ digits limit) of
        RequestException \<Rightarrow> []
      | Response code b \<Rightarrow>
          if code = 200 then (case b of CidList cs \<Rightarrow> cs | _ \<Rightarrow> []) else [])"


section \<open>Responses\<close>

text \<open>
  The literal Russian texts of the source are named, one constructor for each literal,
  with the values interpolated into it as arguments. \<open>ContextText\<close> stands for the
  callback context object that arrives in the \<open>text\<close> parameter when the library
  calls \<open>show_main_menu(update, context)\<close> as a conversation fallback.
\<close>

datatype message_text =
    MainMenuText
  | HelpText
  | SearchPrompt
  | RandomFailed
  | CompareFirstPrompt
  | CompareSecondPrompt
  | NotFoundRetry
  | ComparisonText string string mw string string mw string
  | ComparisonError
  | HistoryEmpty
  | HistoryTitle
  | NoFavorites
  | FavoritesTitle
  | ExamplesTitle
  | CategoryTitle string
  | SearchFailed string
  | MoleculeInfo compound
  | SimilarTitle
  | Saved string
  | Removed string
  | ContextText

datatype label =
    Plain string
  | SearchLabel | RandomLabel | CompareLabel | ExamplesLabel | HistoryLabel
  | FavoritesLabel | HelpLabel | BackLabel | MenuLabel | PubChemLabel
  | SimilarLabel | SaveLabel | RemoveLabel
  | MoleculeLabel nat

datatype button = CallbackButton label string | UrlButton label string

type_synonym markup = "button list list"

text \<open>
  What a handler sends: \<open>query.answer\<close>, \<open>safe_edit_or_reply\<close> (edit the message,
  reply with a new one if editing fails), \<open>reply_text\<close> and \<open>reply_photo\<close>.
  The transport itself is not modelled.
\<close>

datatype action =
    Answer "message_text option"
  | EditOrReply message_text markup
  | ReplyText message_text markup
  | ReplyPhoto string message_text markup

definition create_main_menu :: markup where
  "create_main_menu =
     [[CallbackButton SearchLabel ''search''],
      [CallbackButton RandomLabel ''random''],
      [CallbackButton CompareLabel ''compare''],
      [CallbackButton ExamplesLabel ''examples''],
      [CallbackButton HistoryLabel ''history'', CallbackButton FavoritesLabel ''favorites''],
      [CallbackButton HelpLabel ''help'']]"

definition back_markup :: markup where
  "back_markup = [[CallbackButton BackLabel ''back_to_menu'']]"

definition MOLECULE_EXAMPLES :: "(string \<times> (string \<times> string) list) list" where
  "MOLECULE_EXAMPLES =
     [([CHR 0xD0, CHR 0x9B, CHR 0xD0, CHR 0xB5, CHR 0xD0, CHR 0xBA, CHR 0xD0, CHR 0xB0,
        CHR 0xD1, CHR 0x80, CHR 0xD1, CHR 0x81, CHR 0xD1, CHR 0x82, CHR 0xD0, CHR 0xB2,
        CHR 0xD0, CHR 0xB0],
       [([CHR 0xD0, CHR 0x90, CHR 0xD1, CHR 0x81, CHR 0xD0, CHR 0xBF, CHR 0xD0, CHR 0xB8,
          CHR 0xD1, CHR 0x80, CHR 0xD0, CHR 0xB8, CHR 0xD0, CHR 0xBD], ''aspirin''),
        ([CHR 0xD0, CHR 0x98, CHR 0xD0, CHR 0xB1, CHR 0xD1, CHR 0x83, CHR 0xD0, CHR 0xBF,
          CHR 0xD1, CHR 0x80, CHR 0xD0, CHR 0xBE, CHR 0xD1, CHR 0x84, CHR 0xD0, CHR 0xB5,
          CHR 0xD0, CHR 0xBD], ''ibuprofen''),
        ([CHR 0xD0, CHR 0x9F, CHR 0xD0, CHR 0xB0, CHR 0xD1, CHR 0x80, CHR 0xD0, CHR 0xB0,
          CHR 0xD1, CHR 0x86, CHR 0xD0, CHR 0xB5, CHR 0xD1, CHR 0x82, CHR 0xD0, CHR 0xB0,
          CHR 0xD0, CHR 0xBC, CHR 0xD0, CHR 0xBE, CHR 0xD0, CHR 0xBB], ''paracetamol'')]),
      ([CHR 0xD0, CHR 0x90, CHR 0xD0, CHR 0xBC, CHR 0xD0, CHR 0xB8, CHR 0xD0, CHR 0xBD,
        CHR 0xD0, CHR 0xBE, CHR 0xD0, CHR 0xBA, CHR 0xD0, CHR 0xB8, CHR 0xD1, CHR 0x81,
        CHR 0xD0, CHR 0xBB, CHR 0xD0, CHR 0xBE, CHR 0xD1, CHR 0x82, CHR 0xD1, CHR 0x8B],
       [([CHR 0xD0, CHR 0x93, CHR 0xD0, CHR 0xBB, CHR 0xD0, CHR 0xB8, CHR 0xD1, CHR 0x86,
          CHR 0xD0, CHR 0xB8, CHR 0xD0, CHR 0xBD], ''glycine''),
        ([CHR 0xD0, CHR 0x90, CHR 0xD0, CHR 0xBB, CHR 0xD0, CHR 0xB0, CHR 0xD0, CHR 0xBD,
          CHR 0xD0, CHR 0xB8, CHR 0xD0, CHR 0xBD], ''alanine'')]),
      ([CHR 0xD0, CHR 0x92, CHR 0xD0, CHR 0xB8, CHR 0xD1, CHR 0x82, CHR 0xD0, CHR 0xB0,
        CHR 0xD0, CHR 0xBC, CHR 0xD0, CHR 0xB8, CHR 0xD0, CHR 0xBD, CHR 0xD1, CHR 0x8B],
       [([CHR 0xD0, CHR 0x92, CHR 0xD0, CHR 0xB8, CHR 0xD1, CHR 0x82, CHR 0xD0, CHR 0xB0,
          CHR 0xD0, CHR 0xBC, CHR 0xD0, CHR 0xB8, CHR 0xD0, CHR 0xBD, CHR 0x20, CHR 0x43],
         ''ascorbic acid''),
        ([CHR 0xD0, CHR 0x92, CHR 0xD0, CHR 0xB8, CHR 0xD1, CHR 0x82, CHR 0xD0, CHR 0xB0,
          CHR 0xD0, CHR 0xBC, CHR 0xD0, CHR 0xB8, CHR 0xD0, CHR 0xBD, CHR 0x20, CHR 0x42,
          CHR 0x31, CHR 0x32], ''vitamin b12'')])]"

section \<open>State\<close>

datatype conv_state = SEARCH | COMPARE_FIRST | COMPARE_SECOND

record history_item =
  h_name :: string
  h_cid :: pyid
  h_time :: rat

text \<open>
  The two module-level dicts, keyed by user id; the state the library keeps for each
  of the two conversation handlers (no entry: the user is in no conversation); and
  the \<open>'compare_first'\<close> entry of the user's \<open>context.user_data\<close>. A favorites dict is
  an association list in insertion order, keyed by the identifier string of the token.
  The library keys a conversation by chat and user; the model follows each user in
  one chat.
\<close>

record bot_state =
  SEARCH_HISTORY :: "nat \<Rightarrow> history_item list option"
  FAVORITES :: "nat \<Rightarrow> (string \<times> string) list option"
  search_conv :: "nat \<Rightarrow> conv_state option"
  compare_conv :: "nat \<Rightarrow> conv_state option"
  user_data :: "nat \<Rightarrow> compound option"

text \<open>
  An update: the \<open>/start\<close> command of a user; a text message of a user that is not a
  command; a button press, with the pressing user, the sender of the message that
  carries the button (\<open>query.message.from_user\<close>) and the callback data.
\<close>

datatype update =
    StartCommand nat
  | TextMessage nat string
  | CallbackQuery nat nat string

fun effective_user :: "update \<Rightarrow> nat" where
  "effective_user (StartCommand u) = u"
| "effective_user (TextMessage u t) = u"
| "effective_user (CallbackQuery u b d) = u"

section \<open>Handlers\<close>

fun show_main_menu :: "update \<Rightarrow> message_text \<Rightarrow> action list" where
  "show_main_menu (CallbackQuery u b d) txt = [EditOrReply txt create_main_menu]"
| "show_main_menu upd txt = [ReplyText txt create_main_menu]"

definition start :: "update \<Rightarrow> action list" where
  "start upd = show_main_menu upd MainMenuText"

definition help_command :: "action list" where
  "help_command = [EditOrReply HelpText create_main_menu]"

definition format_molecule_info :: "compound \<Rightarrow> message_text" where
  "format_molecule_info data = MoleculeInfo data"

definition send_molecule_info :: "env \<Rightarrow> compound \<Rightarrow> action list" where
  "send_molecule_info e data =
     (case http_get e (image_url data) of
        RequestException \<Rightarrow> [ReplyText (format_molecule_info data) create_main_menu]
      | Response code b \<Rightarrow>
          if code = 200
          then [ReplyPhoto (image_url data) (format_molecule_info data)
                  [[UrlButton PubChemLabel (pubchem_url data),
                    CallbackButton SimilarLabel (''similar_'' @ py_str (CID data))],
                   [CallbackButton SaveLabel (''save_'' @ py_str (CID data)),
                    CallbackButton MenuLabel ''back_to_menu'']]]
          else [ReplyText (format_molecule_info data) create_main_menu])"

text \<open>
  \<open>process_chemical_search(message, query, by_cid)\<close>; \<open>user_id\<close> is
  \<open>message.from_user.id\<close>, the sender of the message the function is given.
\<close>

definition process_chemical_search ::
  "env \<Rightarrow> bot_state \<Rightarrow> nat \<Rightarrow> string \<Rightarrow> bool \<Rightarrow> bot_state \<times> action list" where
  "process_chemical_search e s user_id query by_cid =
     (case search_compound e (IdStr query) by_cid of
        None \<Rightarrow> (s, [ReplyText (SearchFailed query) create_main_menu])
      | Some result \<Rightarrow>
          (s\<lparr>SEARCH_HISTORY := (SEARCH_HISTORY s)
                (user_id \<mapsto>
                   (case SEARCH_HISTORY s user_id of None \<Rightarrow> [] | Some h \<Rightarrow> h) @
                   [\<lparr>h_name = Name result, h_cid = CID result, h_time = now_timestamp e\<rparr>])\<rparr>,
           send_molecule_info e result))"

definition random_molecule :: "env \<Rightarrow> update \<Rightarrow> action list" where
  "random_molecule e upd =
     (case get_random_compound e of
        Some result \<Rightarrow> send_molecule_info e result
      | None \<Rightarrow> show_main_menu upd RandomFailed)"

text \<open>
  \<open>float(w) if w != 'N/A' else 0\<close>, and \<open>send_comparison\<close> with its \<open>try\<close>: a
  \<open>float()\<close> that raises gives the error reply.
\<close>

fun float_or_zero :: "mw \<Rightarrow> exn + rat" where
  "float_or_zero NA = Inr 0"
| "float_or_zero (Numeric q) = Inr q"
| "float_or_zero NonNumeric = Inl ValueError"

definition send_comparison :: "compound \<Rightarrow> compound \<Rightarrow> action list" where
  "send_comparison first second =
     (case float_or_zero (MolecularWeight first) of
        Inl err \<Rightarrow> [ReplyText ComparisonError create_main_menu]
      | Inr mw1 \<Rightarrow>
          (case float_or_zero (MolecularWeight second) of
             Inl err \<Rightarrow> [ReplyText ComparisonError create_main_menu]
           | Inr mw2 \<Rightarrow>
               let mass_diff = \<bar>fl (mw1 - mw2)\<bar> in
               [ReplyText
                  (ComparisonText (Name first) (MolecularFormula first) (MolecularWeight first)
                     (Name second) (MolecularFormula second) (MolecularWeight second)
                     (fmt_2f mass_diff))
                  create_main_menu]))"

definition history_slice :: "'a list \<Rightarrow> 'a list" where
  "history_slice h = drop (length h - 5) h"

definition show_history :: "bot_state \<Rightarrow> update \<Rightarrow> nat \<Rightarrow> action list" where
  "show_history s upd user_id =
     (case SEARCH_HISTORY s user_id of
        None \<Rightarrow> show_main_menu upd HistoryEmpty
      | Some h \<Rightarrow>
          if h = [] then show_main_menu upd HistoryEmpty
          else [EditOrReply HistoryTitle
                  (map (\<lambda>item. [CallbackButton (Plain (h_name item))
                                   (''history_'' @ py_str (h_cid item))])
                     (rev (history_slice h)) @
                   [[CallbackButton BackLabel ''back_to_menu'']])])"

definition show_favorites :: "bot_state \<Rightarrow> update \<Rightarrow> nat \<Rightarrow> action list" where
  "show_favorites s upd user_id =
     (case FAVORITES s user_id of
        None \<Rightarrow> show_main_menu upd NoFavorites
      | Some favs \<Rightarrow>
          if favs = [] then show_main_menu upd NoFavorites
          else [EditOrReply FavoritesTitle
                  (map (\<lambda>(cid, name). [CallbackButton (Plain name) (''history_'' @ cid),
                                         CallbackButton RemoveLabel (''remove_'' @ cid)])
                     favs @
                   [[CallbackButton BackLabel ''back_to_menu'']])])"

definition show_examples :: "action list" where
  "show_examples =
     [EditOrReply ExamplesTitle
        (map (\<lambda>category. [CallbackButton (Plain category) (''category_'' @ category)])
           (map fst MOLECULE_EXAMPLES) @
         [[CallbackButton BackLabel ''back_to_menu'']])]"

definition show_category :: "string \<Rightarrow> action list" where
  "show_category d =
     (let category = py_replace_empty ''category_'' d;
          examples = dict_get MOLECULE_EXAMPLES category []
      in [EditOrReply (CategoryTitle category)
            (map (\<lambda>(name, term). [CallbackButton (Plain name) (''search_'' @ term)]) examples @
             [[CallbackButton BackLabel ''examples'']])])"


subsection \<open>Conversation callbacks\<close>

text \<open>
  What a conversation callback returns: nothing, \<open>ConversationHandler.END\<close>, or a
  state; or it raises. A callback that reads \<open>update.message\<close> or
  \<open>update.callback_query\<close> of an update that has none raises \<open>AttributeError\<close>.
\<close>

datatype ret = RetNone | RetEnd | RetState conv_state | Raised exn

type_synonym callback = "env \<Rightarrow> bot_state \<Rightarrow> update \<Rightarrow> bot_state \<times> action list \<times> ret"

definition search_command :: callback where
  "search_command e s upd =
     (case upd of
        CallbackQuery u b d \<Rightarrow> (s, [EditOrReply SearchPrompt back_markup], RetState SEARCH)
      | _ \<Rightarrow> (s, [], Raised AttributeError))"

definition handle_search :: callback where
  "handle_search e s upd =
     (case upd of
        TextMessage u t \<Rightarrow>
          (case process_chemical_search e s u t False of (s', outs) \<Rightarrow> (s', outs, RetEnd))
      | _ \<Rightarrow> (s, [], Raised AttributeError))"

definition compare_command :: callback where
  "compare_command e s upd =
     (case upd of
        CallbackQuery u b d \<Rightarrow>
          (s, [EditOrReply CompareFirstPrompt back_markup], RetState COMPARE_FIRST)
      | _ \<Rightarrow> (s, [], Raised AttributeError))"

definition compare_first :: callback where
  "compare_first e s upd =
     (case upd of
        TextMessage u t \<Rightarrow>
          (case search_compound e (IdStr t) False of
             Some result \<Rightarrow>
               (s\<lparr>user_data := (user_data s)(u \<mapsto> result)\<rparr>,
                [ReplyText CompareSecondPrompt back_markup], RetState COMPARE_SECOND)
           | None \<Rightarrow> (s, [ReplyText NotFoundRetry back_markup], RetState COMPARE_FIRST))
      | _ \<Rightarrow> (s, [], Raised AttributeError))"

definition compare_second :: callback where
  "compare_second e s upd =
     (case upd of
        TextMessage u t \<Rightarrow>
          (case search_compound e (IdStr t) False of
             Some second \<Rightarrow>
               (case user_data s u of
                  None \<Rightarrow> (s, [], Raised KeyError)
                | Some first \<Rightarrow> (s, send_comparison first second, RetEnd))
           | None \<Rightarrow> (s, [ReplyText NotFoundRetry back_markup], RetState COMPARE_SECOND))
      | _ \<Rightarrow> (s, [], Raised AttributeError))"

text \<open>
  \<open>show_main_menu\<close> registered as a conversation fallback: the library calls it with
  \<open>(update, context)\<close>, so the context is its \<open>text\<close>, and it returns nothing.
\<close>

definition show_main_menu_callback :: callback where
  "show_main_menu_callback e s upd = (s, show_main_menu upd ContextText, RetNone)"

subsection \<open>Buttons and plain messages\<close>

text \<open>
  \<open>button_handler\<close>: \<open>query.answer()\<close> first, then the chain of comparisons in the
  order of the source. Values returned by the handlers it calls are dropped.
\<close>

definition button_handler ::
  "env \<Rightarrow> bot_state \<Rightarrow> nat \<Rightarrow> nat \<Rightarrow> string \<Rightarrow> bot_state \<times> action list" where
  "button_handler e s u b d =
     (let upd = CallbackQuery u b d in
      if d = ''back_to_menu'' then (s, Answer None # show_main_menu upd MainMenuText)
      else if d = ''search'' then
        (case search_command e s upd of (s', outs, r) \<Rightarrow> (s', Answer None # outs))
      else if d = ''random'' then (s, Answer None # random_molecule e upd)
      else if d = ''compare'' then
        (case compare_command e s upd of (s', outs, r) \<Rightarrow> (s', Answer None # outs))
      else if d = ''examples'' then (s, Answer None # show_examples)
      else if d = ''history'' then (s, Answer None # show_history s upd u)
      else if d = ''favorites'' then (s, Answer None # show_favorites s upd u)
      else if d = ''help'' then (s, Answer None # help_command)
      else if py_startswith d ''category_'' then (s, Answer None # show_category d)
      else if py_startswith d ''search_'' then
        (case process_chemical_search e s b (py_replace_empty ''search_'' d) False of
           (s', outs) \<Rightarrow> (s', Answer None # outs))
      else if py_startswith d ''history_'' then
        (case process_chemical_search e s b (py_replace_empty ''history_'' d) True of
           (s', outs) \<Rightarrow> (s', Answer None # outs))
      else if py_startswith d ''similar_'' then
        (let cid = py_replace_empty ''similar_'' d;
             similar = get_similar_compounds e cid 5
         in if similar \<noteq> [] then
              (s, [Answer None,
                   EditOrReply SimilarTitle
                     (map (\<lambda>(i, cid). [CallbackButton (MoleculeLabel (i + 1))
                                           (''history_'' @ py_str_int cid)])
                        (enumerate 0 similar) @
                      [[CallbackButton BackLabel
                          (''history_'' @ py_replace_empty ''similar_'' d)]])])
            else (s, [Answer None]))
      else if py_startswith d ''save_'' then
        (let cid = py_replace_empty ''save_'' d;
             favs = (case FAVORITES s u of None \<Rightarrow> [] | Some f \<Rightarrow> f)
         in case search_compound e (IdStr cid) True of
              Some result \<Rightarrow>
                (s\<lparr>FAVORITES := (FAVORITES s)(u \<mapsto> AList.update cid (Name result) favs)\<rparr>,
                 [Answer None, Answer (Some (Saved (Name result)))])
            | None \<Rightarrow> (s\<lparr>FAVORITES := (FAVORITES s)(u \<mapsto> favs)\<rparr>, [Answer None]))
      else if py_startswith d ''remove_'' then
        (let cid = py_replace_empty ''remove_'' d
         in case FAVORITES s u of
              None \<Rightarrow> (s, [Answer None])
            | Some favs \<Rightarrow>
                (case map_of favs cid of
                   None \<Rightarrow> (s, [Answer None])
                 | Some name \<Rightarrow>
                     (let s' = s\<lparr>FAVORITES := (FAVORITES s)(u \<mapsto> AList.delete cid favs)\<rparr>
                      in (s', [Answer None, Answer (Some (Removed name))] @
                              show_favorites s' upd u))))
      else (s, [Answer None]))"

definition handle_message :: "env \<Rightarrow> bot_state \<Rightarrow> nat \<Rightarrow> string \<Rightarrow> bot_state \<times> action list" where
  "handle_message e s u t = process_chemical_search e s u t False"

section \<open>Dispatch\<close>

text \<open>
  The handlers of \<open>main\<close>, all in one group: the first handler that accepts an update
  handles it. \<open>CallbackPattern lit\<close> is a \<open>CallbackQueryHandler\<close> with the pattern
  \<open>^lit$\<close>, which \<open>re.match\<close> accepts on \<open>lit\<close> and on \<open>lit\<close> followed by one newline;
  \<open>TextNotCommand\<close> is \<open>filters.TEXT & ~filters.COMMAND\<close>.
\<close>

datatype handler_filter = CallbackPattern string | TextNotCommand

fun filter_accepts :: "handler_filter \<Rightarrow> update \<Rightarrow> bool" where
  "filter_accepts (CallbackPattern lit) (CallbackQuery u b d) = (d = lit \<or> d = lit @ [CHR 0x0A])"
| "filter_accepts TextNotCommand (TextMessage u t) = True"
| "filter_accepts f upd = False"

record conversation_handler =
  entry_points :: "(handler_filter \<times> callback) list"
  states :: "(conv_state \<times> (handler_filter \<times> callback) list) list"
  fallbacks :: "(handler_filter \<times> callback) list"

definition search_conv_handler :: conversation_handler where
  "search_conv_handler =
     \<lparr>entry_points = [(CallbackPattern ''search'', search_command)],
      states = [(SEARCH, [(TextNotCommand, handle_search)])],
      fallbacks = [(CallbackPattern ''back_to_menu'', show_main_menu_callback)]\<rparr>"

definition compare_conv_handler :: conversation_handler where
  "compare_conv_handler =
     \<lparr>entry_points = [(CallbackPattern ''compare'', compare_command)],
      states = [(COMPARE_FIRST, [(TextNotCommand, compare_first)]),
                (COMPARE_SECOND, [(TextNotCommand, compare_second)])],
      fallbacks = [(CallbackPattern ''back_to_menu'', show_main_menu_callback)]\<rparr>"

fun first_accepting :: "(handler_filter \<times> callback) list \<Rightarrow> update \<Rightarrow> callback option" where
  "first_accepting [] upd = None"
| "first_accepting ((f, cb) # hs) upd =
     (if filter_accepts f upd then Some cb else first_accepting hs upd)"

text \<open>
  The conversation handler's choice of a callback (re-entry is off): outside a
  conversation only the entry points are tried; inside one, the handlers of the
  current state and then the fallbacks. \<open>None\<close>: the update is passed on.
\<close>

definition check_update ::
  "conversation_handler \<Rightarrow> conv_state option \<Rightarrow> update \<Rightarrow> callback option" where
  "check_update conv state upd =
     (case state of
        None \<Rightarrow> first_accepting (entry_points conv) upd
      | Some st \<Rightarrow>
          (case first_accepting (dict_get (states conv) st []) upd of
             Some cb \<Rightarrow> Some cb
           | None \<Rightarrow> first_accepting (fallbacks conv) upd))"

text \<open>
  The state of the conversation after the callback: ended on \<open>END\<close>, replaced on a
  state, kept when the callback returned nothing or raised.
\<close>

fun update_state :: "ret \<Rightarrow> conv_state option \<Rightarrow> conv_state option" where
  "update_state RetEnd old = None"
| "update_state (RetState st) old = Some st"
| "update_state RetNone old = old"
| "update_state (Raised x) old = old"

definition process_update :: "env \<Rightarrow> bot_state \<Rightarrow> update \<Rightarrow> bot_state \<times> action list" where
  "process_update e s upd =
     (case upd of
        StartCommand u0 \<Rightarrow> (s, start upd)
      | _ \<Rightarrow>
          (let u = effective_user upd in
           case check_update search_conv_handler (search_conv s u) upd of
             Some cb \<Rightarrow>
               (case cb e s upd of
                  (s', outs, r) \<Rightarrow>
                    (s'\<lparr>search_conv :=
                          (search_conv s')(u := update_state r (search_conv s' u))\<rparr>, outs))
           | None \<Rightarrow>
               (case check_update compare_conv_handler (compare_conv s u) upd of
                  Some cb \<Rightarrow>
                    (case cb e s upd of
                       (s', outs, r) \<Rightarrow>
                         (s'\<lparr>compare_conv :=
                               (compare_conv s')(u := update_state r (compare_conv s' u))\<rparr>,
                          outs))
                | None \<Rightarrow>
                    (case upd of
                       TextMessage u1 t \<Rightarrow> handle_message e s u1 t
                     | CallbackQuery u1 b d \<Rightarrow> button_handler e s u1 b d
                     | StartCommand u1 \<Rightarrow> (s, [])))))"

text \<open>A run of the bot over a sequence of updates, each with its environment.\<close>

fun run :: "bot_state \<Rightarrow> (env \<times> update) list \<Rightarrow> bot_state" where
  "run s [] = s"
| "run s ((e, upd) # rest) = run (fst (process_update e s upd)) rest"


section \<open>Reading the state\<close>

text \<open>
  A user's history and favorites as the readers in the source see them: a missing
  entry and an empty one are the same to \<open>show_history\<close>, \<open>show_favorites\<close> and the
  \<open>save_\<close> branch.
\<close>

definition history_of :: "bot_state \<Rightarrow> nat \<Rightarrow> history_item list" where
  "history_of s u = (case SEARCH_HISTORY s u of None \<Rightarrow> [] | Some h \<Rightarrow> h)"

definition favorites_of :: "bot_state \<Rightarrow> nat \<Rightarrow> (string \<times> string) list" where
  "favorites_of s u = (case FAVORITES s u of None \<Rightarrow> [] | Some f \<Rightarrow> f)"

text \<open>
  The state \<open>s\<close> with user \<open>u\<close> put into given states of the search conversation and
  of the compare conversation. With \<open>None\<close> for no conversation, the four states of
  the specification are: idle \<open>None None\<close>; awaiting the search query
  \<open>(Some SEARCH) None\<close>; awaiting the first term \<open>None (Some COMPARE_FIRST)\<close>;
  awaiting the second term \<open>None (Some COMPARE_SECOND)\<close>, the pending record being the
  user's \<open>user_data\<close> entry.
\<close>

definition with_conv ::
  "bot_state \<Rightarrow> nat \<Rightarrow> conv_state option \<Rightarrow> conv_state option \<Rightarrow> bot_state" where
  "with_conv s u a b =
     s\<lparr>search_conv := (search_conv s)(u := a), compare_conv := (compare_conv s)(u := b)\<rparr>"


text \<open>
  A run of text entries of one user, each with its environment, and the history
  entries that \<open>process_chemical_search\<close> writes for those of them whose lookup
  succeeds.
\<close>

definition text_entries :: "nat \<Rightarrow> (env \<times> string) list \<Rightarrow> (env \<times> update) list" where
  "text_entries u ts = map (\<lambda>(e, t). (e, TextMessage u t)) ts"

definition recorded :: "(env \<times> string) list \<Rightarrow> history_item list" where
  "recorded ts =
     List.map_filter
       (\<lambda>(e, t). map_option
          (\<lambda>result. \<lparr>h_name = Name result, h_cid = CID result, h_time = now_timestamp e\<rparr>)
          (search_compound e (IdStr t) False))
       ts"

section \<open>Example data\<close>

text \<open>
  Two upstream records and two environments: one that answers for them, and one in
  which every request fails. The first record carries a weight, the second none.
\<close>

definition aspirin_json :: pc_compound where
  "aspirin_json =
     \<lparr>atoms_fstring = Some ''C9H8O4'',
      coords_weight_value = Some (Numeric (fl (18016 / 100))),
      props_svals = [(''IUPAC Name'', ''2-acetyloxybenzoic acid''),
                     (''InChIKey'', ''BSYNRYMUTXBXSQ-UHFFFAOYSA-N''),
                     (''SMILES'', ''CC(=O)OC1=CC=CC=C1C(=O)O'')]\<rparr>"

definition glycine_json :: pc_compound where
  "glycine_json =
     \<lparr>atoms_fstring = None,
      coords_weight_value = None,
      props_svals = [(''IUPAC Name'', ''2-aminoacetic acid''),
                     (''InChIKey'', ''DHMQDGOQFOQNFH-UHFFFAOYSA-N''),
                     (''SMILES'', ''C(C(=O)O)N'')]\<rparr>"

definition example_env :: env where
  "example_env =
     \<lparr>http_get = (\<lambda>url.
        if url = ''https://pubchem.ncbi.nlm.nih.gov/rest/pug/compound/name/aspirin/cids/JSON''
          then Response 200 (CidList [2244])
        else if url = ''https://pubchem.ncbi.nlm.nih.gov/rest/pug/compound/name/glycine/cids/JSON''
          then Response 200 (CidList [750])
        else if url = ''https://pubchem.ncbi.nlm.nih.gov/rest/pug/compound/cid/2244/JSON''
          then Response 200 (Compounds aspirin_json)
        else if url = ''https://pubchem.ncbi.nlm.nih.gov/rest/pug/compound/cid/750/JSON''
          then Response 200 (Compounds glycine_json)
        else if url = ''https://pubchem.ncbi.nlm.nih.gov/rest/pug/compound/random/random.cid/JSON''
          then Response 200 (CidList [2244])
        else Response 404 OtherBody),
      now_timestamp = 1700000000\<rparr>"

definition failing_env :: env where
  "failing_env = \<lparr>http_get = (\<lambda>url. RequestException), now_timestamp = 1700000000\<rparr>"

definition aspirin_record :: compound where
  "aspirin_record =
     \<lparr>CID = IdInt 2244, Name = ''aspirin'', MolecularFormula = ''C9H8O4'',
      MolecularWeight = Numeric (fl (18016 / 100)),
      IUPACName = ''2-acetyloxybenzoic acid'',
      CanonicalSMILES = ''CC(=O)OC1=CC=CC=C1C(=O)O'',
      InChIKey = ''BSYNRYMUTXBXSQ-UHFFFAOYSA-N'',
      image_url = ''https://pubchem.ncbi.nlm.nih.gov/rest/pug/compound/cid/2244/PNG'',
      pubchem_url = ''https://pubchem.ncbi.nlm.nih.gov/compound/2244''\<rparr>"

definition glycine_record :: compound where
  "glycine_record =
     \<lparr>CID = IdInt 750, Name = ''glycine'', MolecularFormula = ''N/A'',
      MolecularWeight = NA,
      IUPACName = ''2-aminoacetic acid'',
      CanonicalSMILES = ''C(C(=O)O)N'',
      InChIKey = ''DHMQDGOQFOQNFH-UHFFFAOYSA-N'',
      image_url = ''https://pubchem.ncbi.nlm.nih.gov/rest/pug/compound/cid/750/PNG'',
      pubchem_url = ''https://pubchem.ncbi.nlm.nih.gov/compound/750''\<rparr>"

definition initial_state :: bot_state where
  "initial_state =
     \<lparr>SEARCH_HISTORY = (\<lambda>u. None), FAVORITES = (\<lambda>u. None),
      search_conv = (\<lambda>u. None), compare_conv = (\<lambda>u. None), user_data = (\<lambda>u. None)\<rparr>"



text \<open>Seven text entries, six of which are found.\<close>

definition seven_entries :: "(env \<times> string) list" where
  "seven_entries =
     [(example_env, ''aspirin''), (example_env, ''glycine''), (example_env, ''aspirin''),
      (example_env, ''unobtainium''), (example_env, ''glycine''), (example_env, ''aspirin''),
      (example_env, ''glycine'')]"

definition aspirin_entry :: history_item where
  "aspirin_entry = \<lparr>h_name = ''aspirin'', h_cid = IdInt 2244, h_time = 1700000000\<rparr>"

definition glycine_entry :: history_item where
  "glycine_entry = \<lparr>h_name = ''glycine'', h_cid = IdInt 750, h_time = 1700000000\<rparr>"

section \<open>Which handler gets an update\<close>

lemma check_search_text:
  "check_update search_conv_handler st (TextMessage u t) =
     (if st = Some SEARCH then Some handle_search else None)"
  by (cases st; cases "the st")
     (simp_all add: check_update_def search_conv_handler_def dict_get_def)

lemma check_compare_text:
  "check_update compare_conv_handler st (TextMessage u t) =
     (case st of Some COMPARE_FIRST \<Rightarrow> Some compare_first
               | Some COMPARE_SECOND \<Rightarrow> Some compare_second
               | _ \<Rightarrow> None)"
  by (cases st; cases "the st")
     (simp_all add: check_update_def compare_conv_handler_def dict_get_def)

lemma check_search_callback:
  "check_update search_conv_handler st (CallbackQuery u b d) =
     (case st of
        None \<Rightarrow> if d = ''search'' \<or> d = ''search'' @ [CHR 0x0A] then Some search_command else None
      | Some x \<Rightarrow> if d = ''back_to_menu'' \<or> d = ''back_to_menu'' @ [CHR 0x0A]
                  then Some show_main_menu_callback else None)"
  by (cases st; cases "the st")
     (simp_all add: check_update_def search_conv_handler_def dict_get_def)

lemma check_compare_callback:
  "check_update compare_conv_handler st (CallbackQuery u b d) =
     (case st of
        None \<Rightarrow> if d = ''compare'' \<or> d = ''compare'' @ [CHR 0x0A] then Some compare_command else None
      | Some x \<Rightarrow> if d = ''back_to_menu'' \<or> d = ''back_to_menu'' @ [CHR 0x0A]
                  then Some show_main_menu_callback else None)"
  by (cases st; cases "the st")
     (simp_all add: check_update_def compare_conv_handler_def dict_get_def)

lemma process_update_text:
  "process_update e s (TextMessage u t) =
     (if search_conv s u = Some SEARCH then
        (case process_chemical_search e s u t False of
           (s', outs) \<Rightarrow> (s'\<lparr>search_conv := (search_conv s')(u := None)\<rparr>, outs))
      else (case compare_conv s u of
              Some COMPARE_FIRST \<Rightarrow>
                (case compare_first e s (TextMessage u t) of
                   (s', outs, r) \<Rightarrow>
                     (s'\<lparr>compare_conv := (compare_conv s')(u := update_state r (compare_conv s' u))\<rparr>, outs))
            | Some COMPARE_SECOND \<Rightarrow>
                (case compare_second e s (TextMessage u t) of
                   (s', outs, r) \<Rightarrow>
                     (s'\<lparr>compare_conv := (compare_conv s')(u := update_state r (compare_conv s' u))\<rparr>, outs))
            | _ \<Rightarrow> process_chemical_search e s u t False))"
  by (simp add: process_update_def check_search_text check_compare_text handle_search_def
      handle_message_def split: option.splits conv_state.splits prod.splits)

lemma process_update_button:
  assumes "d \<noteq> ''search''" "d \<noteq> ''search'' @ [CHR 0x0A]"
    "d \<noteq> ''compare''" "d \<noteq> ''compare'' @ [CHR 0x0A]"
    "d \<noteq> ''back_to_menu''" "d \<noteq> ''back_to_menu'' @ [CHR 0x0A]"
  shows "process_update e s (CallbackQuery u b d) = button_handler e s u b d"
  using assms
  by (simp add: process_update_def check_search_callback check_compare_callback
      split: option.splits)

lemma button_history_token:
  "button_handler e s u b (''history_'' @ x) =
     (case process_chemical_search e s b (py_replace_empty ''history_'' (''history_'' @ x)) True of
        (s', outs) \<Rightarrow> (s', Answer None # outs))"
  by (simp add: button_handler_def py_startswith_def)


lemma button_random:
  "button_handler e s u b ''random'' =
     (s, Answer None # random_molecule e (CallbackQuery u b ''random''))"
  by (simp add: button_handler_def)

lemma button_similar_token:
  "button_handler e s u b (''similar_'' @ x) =
     (let cid = py_replace_empty ''similar_'' (''similar_'' @ x);
          similar = get_similar_compounds e cid 5
      in if similar \<noteq> [] then
           (s, [Answer None,
                EditOrReply SimilarTitle
                  (map (\<lambda>(i, cid). [CallbackButton (MoleculeLabel (i + 1))
                                        (''history_'' @ py_str_int cid)])
                     (enumerate 0 similar) @
                   [[CallbackButton BackLabel (''history_'' @ cid)]])])
         else (s, [Answer None]))"
  by (simp add: button_handler_def py_startswith_def Let_def)

lemma button_save_token:
  "button_handler e s u b (''save_'' @ x) =
     (let cid = py_replace_empty ''save_'' (''save_'' @ x);
          favs = (case FAVORITES s u of None \<Rightarrow> [] | Some f \<Rightarrow> f)
      in case search_compound e (IdStr cid) True of
           Some result \<Rightarrow>
             (s\<lparr>FAVORITES := (FAVORITES s)(u \<mapsto> AList.update cid (Name result) favs)\<rparr>,
              [Answer None, Answer (Some (Saved (Name result)))])
         | None \<Rightarrow> (s\<lparr>FAVORITES := (FAVORITES s)(u \<mapsto> favs)\<rparr>, [Answer None]))"
  by (simp add: button_handler_def py_startswith_def Let_def)

lemma button_remove_token:
  "button_handler e s u b (''remove_'' @ x) =
     (let cid = py_replace_empty ''remove_'' (''remove_'' @ x)
      in case FAVORITES s u of
           None \<Rightarrow> (s, [Answer None])
         | Some favs \<Rightarrow>
             (case map_of favs cid of
                None \<Rightarrow> (s, [Answer None])
              | Some name \<Rightarrow>
                  (let s' = s\<lparr>FAVORITES := (FAVORITES s)(u \<mapsto> AList.delete cid favs)\<rparr>
                   in (s', [Answer None, Answer (Some (Removed name))] @
                           show_favorites s' (CallbackQuery u b (''remove_'' @ x)) u))))"
  by (simp add: button_handler_def py_startswith_def Let_def split: option.splits)

lemma process_update_token:
  assumes "p \<in> {''history_'', ''search_'', ''similar_'', ''save_'', ''remove_''}"
  shows "process_update e s (CallbackQuery u b (p @ x)) = button_handler e s u b (p @ x)"
  using assms by (auto intro!: process_update_button)

lemma process_update_random:
  "process_update e s (CallbackQuery u b ''random'') =
     (s, Answer None # random_molecule e (CallbackQuery u b ''random''))"
  by (simp add: process_update_button button_random)

lemma process_update_back_to_menu:
  "process_update e s (CallbackQuery u b ''back_to_menu'') =
     (s, if search_conv s u = None \<and> compare_conv s u = None
         then [Answer None, EditOrReply MainMenuText create_main_menu]
         else [EditOrReply ContextText create_main_menu])"
  by (cases s)
     (auto simp add: process_update_def check_search_callback check_compare_callback
      show_main_menu_callback_def button_handler_def split: option.splits)

section \<open>Identifiers inside callback tokens\<close>

text \<open>
  The decimal rendering of an int consists of digits and possibly a minus sign, so
  cutting a token prefix that starts with a letter off \<open>prefix + str(n)\<close> gives back
  \<open>str(n)\<close>.
\<close>

lemma py_replace_empty_prefix:
  "p \<noteq> [] \<Longrightarrow> py_replace_empty p (p @ r) = py_replace_empty p r"
  by (cases p) (simp_all add: py_startswith_def)

lemma py_replace_empty_absent:
  "p \<noteq> [] \<Longrightarrow> hd p \<notin> set s \<Longrightarrow> py_replace_empty p s = s"
proof (induction s)
  case Nil
  then show ?case by simp
next
  case (Cons c cs)
  then have "\<not> py_startswith (c # cs) p"
    by (cases p) (auto simp: py_startswith_def)
  with Cons show ?case by simp
qed

lemma digits_chars: "set (digits n) \<subseteq> set ''0123456789''"
proof -
  define S where "S = set ''0123456789''"
  have nth: "''0123456789'' ! k \<in> S" if "k < 10" for k
    unfolding S_def using that by (intro nth_mem) simp
  have "set (digits n) \<subseteq> S"
  proof (induction n rule: digits.induct)
    case (1 n)
    show ?case
    proof (cases "n < 10")
      case True
      then have "digits n = [''0123456789'' ! n]"
        by (subst digits.simps) (simp only: if_True)
      with nth[OF True] show ?thesis by (simp only: list.set insert_subset empty_subsetI simp_thms)
    next
      case False
      then have "digits n = digits (n div 10) @ [''0123456789'' ! (n mod 10)]"
        by (subst digits.simps) (simp only: if_False)
      moreover have "''0123456789'' ! (n mod 10) \<in> S"
        by (rule nth) simp
      moreover have "set (digits (n div 10)) \<subseteq> S"
        using False by (rule 1)
      ultimately show ?thesis
        by (simp only: set_append list.set insert_subset empty_subsetI Un_subset_iff simp_thms)
    qed
  qed
  then show ?thesis by (simp only: S_def)
qed

lemma py_str_int_chars: "set (py_str_int n) \<subseteq> set ''-0123456789''"
proof -
  define T where "T = set ''-0123456789''"
  have sub: "set ''0123456789'' \<subseteq> T"
    unfolding T_def by (simp only: list.set) blast
  have minus: "CHR ''-'' \<in> T"
    unfolding T_def by (simp only: list.set) blast
  have d: "set (digits k) \<subseteq> T" for k
    using digits_chars[of k] sub by (rule subset_trans)
  have "set (py_str_int n) \<subseteq> T"
  proof (cases "n < 0")
    case True
    then have "py_str_int n = CHR ''-'' # digits (nat (- n))"
      by (simp only: py_str_int_def if_True)
    with minus d[of "nat (- n)"] show ?thesis
      by (simp only: list.set insert_subset simp_thms)
  next
    case False
    then have "py_str_int n = digits (nat n)"
      by (simp only: py_str_int_def if_False)
    with d[of "nat n"] show ?thesis by (simp only:)
  qed
  then show ?thesis by (simp only: T_def)
qed

lemma strip_token_int:
  assumes "p \<noteq> []" and "hd p \<notin> set ''-0123456789''"
  shows "py_replace_empty p (p @ py_str_int n) = py_str_int n"
proof -
  from assms(2) py_str_int_chars[of n] have "hd p \<notin> set (py_str_int n)" by blast
  with assms(1) have absent: "py_replace_empty p (py_str_int n) = py_str_int n"
    by (rule py_replace_empty_absent)
  have "py_replace_empty p (p @ py_str_int n) = py_replace_empty p (py_str_int n)"
    using assms(1) by (rule py_replace_empty_prefix)
  also note absent
  finally show ?thesis .
qed

lemma strip_history: "py_replace_empty ''history_'' (''history_'' @ py_str_int n) = py_str_int n"
  by (rule strip_token_int) simp_all

lemma strip_save: "py_replace_empty ''save_'' (''save_'' @ py_str_int n) = py_str_int n"
  by (rule strip_token_int) simp_all

lemma strip_remove: "py_replace_empty ''remove_'' (''remove_'' @ py_str_int n) = py_str_int n"
  by (rule strip_token_int) simp_all

section \<open>Comparison of two records\<close>

lemma fmt_diff_180_76: "fmt_2f \<bar>fl (fl (18016 / 100) - fl (7605 / 100))\<bar> = ''104.11''"
  by code_simp

lemma fmt_diff_76_180: "fmt_2f \<bar>fl (fl (7605 / 100) - fl (18016 / 100))\<bar> = ''104.11''"
  by code_simp



lemma send_comparison_numeric:
  "send_comparison (first\<lparr>MolecularWeight := Numeric a\<rparr>) (second\<lparr>MolecularWeight := Numeric b\<rparr>) =
     [ReplyText
        (ComparisonText (Name first) (MolecularFormula first) (Numeric a)
           (Name second) (MolecularFormula second) (Numeric b) (fmt_2f \<bar>fl (a - b)\<bar>))
        create_main_menu]"
  by (simp add: send_comparison_def)

text \<open>
  C10. The two weights are the floats nearest to 180.16 and 76.05. The comparison of
  two records with these weights, in either order, reports the difference
  \<open>104.11\<close>: the float subtraction, its absolute value and the two-decimal format
  give exactly this string.
\<close>

theorem comparison_180_16_and_76_05:
  "send_comparison (first\<lparr>MolecularWeight := Numeric (fl (18016 / 100))\<rparr>)
                   (second\<lparr>MolecularWeight := Numeric (fl (7605 / 100))\<rparr>) =
     [ReplyText
        (ComparisonText (Name first) (MolecularFormula first) (Numeric (fl (18016 / 100)))
           (Name second) (MolecularFormula second) (Numeric (fl (7605 / 100))) ''104.11'')
        create_main_menu]
   \<and> send_comparison (second\<lparr>MolecularWeight := Numeric (fl (7605 / 100))\<rparr>)
                     (first\<lparr>MolecularWeight := Numeric (fl (18016 / 100))\<rparr>) =
     [ReplyText
        (ComparisonText (Name second) (MolecularFormula second) (Numeric (fl (7605 / 100)))
           (Name first) (MolecularFormula first) (Numeric (fl (18016 / 100))) ''104.11'')
        create_main_menu]"
  by (simp only: send_comparison_numeric fmt_diff_180_76 fmt_diff_76_180 simp_thms)



section \<open>The example environments, evaluated\<close>

lemma str_2244: "py_str_int 2244 = ''2244''"
  by code_simp

lemma str_750: "py_str_int 750 = ''750''"
  by code_simp

lemmas example_defs =
  search_compound_def example_env_def BASE_URL_def aspirin_json_def glycine_json_def
  aspirin_record_def glycine_record_def dict_get_def str_2244 str_750

lemma example_search_aspirin:
  "search_compound example_env (IdStr ''aspirin'') False = Some aspirin_record"
  by (simp add: example_defs)

lemma example_search_glycine:
  "search_compound example_env (IdStr ''glycine'') False = Some glycine_record"
  by (simp add: example_defs)

lemma example_by_cid:
  "search_compound example_env (IdStr ''2244'') True =
     Some (aspirin_record\<lparr>CID := IdStr ''2244'', Name := ''2-acetyloxybenzoic acid''\<rparr>)"
  by (simp add: example_defs)

lemma example_random:
  "get_random_compound example_env =
     Some (aspirin_record\<lparr>Name := ''2-acetyloxybenzoic acid''\<rparr>)"
  by (simp add: get_random_compound_def example_defs)

lemma failing_search: "search_compound failing_env q c = None"
  by (simp add: search_compound_def failing_env_def)


lemma failing_similar: "get_similar_compounds failing_env c n = []"
  by (simp add: get_similar_compounds_def failing_env_def)

section \<open>The random molecule\<close>

text \<open>
  C4, as stated, fails: in the example environment the random lookup succeeds, and
  handling \<open>random\<close> from the idle state leaves the whole state as it was. No history
  entry is recorded, neither for the pressing user 7 nor for the sender 99 of the
  message that carries the button.
\<close>

theorem random_success_records_no_history:
  "get_random_compound example_env =
     Some (aspirin_record\<lparr>Name := ''2-acetyloxybenzoic acid''\<rparr>)
   \<and> fst (process_update example_env initial_state (CallbackQuery 7 99 ''random'')) = initial_state
   \<and> SEARCH_HISTORY (fst (process_update example_env initial_state (CallbackQuery 7 99 ''random''))) 7 = None
   \<and> SEARCH_HISTORY (fst (process_update example_env initial_state (CallbackQuery 7 99 ''random''))) 99 = None"
  by (simp add: process_update_random example_random initial_state_def)

text \<open>
  C4, amended. Handling \<open>random\<close>, in any state, answers the query and calls
  \<open>get_random_compound\<close>. On success the record is formatted and sent by
  \<open>send_molecule_info\<close>; on failure the error text is shown with the main menu. In
  both cases the state is unchanged: an idle user stays idle, and no history entry
  is recorded.
\<close>

theorem random_molecule_handled:
  "process_update e s (CallbackQuery u b ''random'') =
     (s, Answer None #
         (case get_random_compound e of
            Some result \<Rightarrow> send_molecule_info e result
          | None \<Rightarrow> [EditOrReply RandomFailed create_main_menu]))"
  by (simp add: process_update_random random_molecule_def split: option.splits)

section \<open>The Back button inside a conversation\<close>

text \<open>
  C2. The claim is that \<open>back_to_menu\<close> always yields the idle state. In each of the
  three awaiting states the update goes to the fallback of the conversation the user
  is in. The fallback is \<open>show_main_menu\<close>, which returns nothing, so the conversation
  keeps its state: the user is still awaiting the search term, the first or the
  second compound, and the pending record stays. The text passed to the menu is the
  callback context.
\<close>

theorem back_to_menu_keeps_awaiting_state:
  "process_update e (s\<lparr>search_conv := (search_conv s)(u \<mapsto> SEARCH)\<rparr>)
       (CallbackQuery u b ''back_to_menu'') =
     (s\<lparr>search_conv := (search_conv s)(u \<mapsto> SEARCH)\<rparr>,
      [EditOrReply ContextText create_main_menu])
   \<and> process_update e
       (s\<lparr>search_conv := (search_conv s)(u := None),
          compare_conv := (compare_conv s)(u \<mapsto> COMPARE_FIRST)\<rparr>)
       (CallbackQuery u b ''back_to_menu'') =
     (s\<lparr>search_conv := (search_conv s)(u := None),
        compare_conv := (compare_conv s)(u \<mapsto> COMPARE_FIRST)\<rparr>,
      [EditOrReply ContextText create_main_menu])
   \<and> process_update e
       (s\<lparr>search_conv := (search_conv s)(u := None),
          compare_conv := (compare_conv s)(u \<mapsto> COMPARE_SECOND),
          user_data := (user_data s)(u \<mapsto> pending)\<rparr>)
       (CallbackQuery u b ''back_to_menu'') =
     (s\<lparr>search_conv := (search_conv s)(u := None),
        compare_conv := (compare_conv s)(u \<mapsto> COMPARE_SECOND),
        user_data := (user_data s)(u \<mapsto> pending)\<rparr>,
      [EditOrReply ContextText create_main_menu])"
  by (simp add: process_update_back_to_menu)

section \<open>Failures without a message\<close>

text \<open>
  C5. The claim is that every failure produces a message for the user. Two failures
  produce none: when the similar-compounds lookup gives no identifier, and when the
  lookup of a compound to be saved fails, the only action is the empty
  \<open>query.answer()\<close> that every button press gets.
\<close>

theorem silent_failures:
  "(get_similar_compounds e (py_replace_empty ''similar_'' x) 5 = [] \<longrightarrow>
      process_update e s (CallbackQuery u b (''similar_'' @ x)) = (s, [Answer None]))
   \<and> (search_compound e (IdStr (py_replace_empty ''save_'' x)) True = None \<longrightarrow>
      snd (process_update e s (CallbackQuery u b (''save_'' @ x))) = [Answer None])"
proof -
  have similar: "process_update e s (CallbackQuery u b (''similar_'' @ x)) =
      button_handler e s u b (''similar_'' @ x)"
    by (rule process_update_token) simp
  have save: "process_update e s (CallbackQuery u b (''save_'' @ x)) =
      button_handler e s u b (''save_'' @ x)"
    by (rule process_update_token) simp
  show ?thesis
    unfolding similar save button_similar_token button_save_token
    by (simp add: Let_def py_startswith_def)
qed

theorem silent_failures_witness:
  "get_similar_compounds failing_env (py_replace_empty ''similar_'' ''2244'') 5 = []
   \<and> process_update failing_env initial_state (CallbackQuery 7 99 ''similar_2244'') =
       (initial_state, [Answer None])
   \<and> search_compound failing_env (IdStr (py_replace_empty ''save_'' ''2244'')) True = None
   \<and> snd (process_update failing_env initial_state (CallbackQuery 7 99 ''save_2244'')) =
       [Answer None]"
  using silent_failures[of failing_env "''2244''" initial_state 7 99]
  by (simp add: failing_search failing_similar py_startswith_def)

section \<open>Lookup failures\<close>


lemma with_conv_same [simp]:
  "search_conv (with_conv s u a b) u = a" "compare_conv (with_conv s u a b) u = b"
  "SEARCH_HISTORY (with_conv s u a b) = SEARCH_HISTORY s"
  "FAVORITES (with_conv s u a b) = FAVORITES s"
  "user_data (with_conv s u a b) = user_data s"
  by (simp_all add: with_conv_def)











section \<open>The pending record of a comparison\<close>

lemma process_chemical_search_frame:
  "user_data (fst (process_chemical_search e s uid q c)) = user_data s"
  "compare_conv (fst (process_chemical_search e s uid q c)) = compare_conv s"
  "search_conv (fst (process_chemical_search e s uid q c)) = search_conv s"
  "FAVORITES (fst (process_chemical_search e s uid q c)) = FAVORITES s"
  by (simp_all add: process_chemical_search_def split: option.splits)










lemma example_not_found: "search_compound example_env (IdStr ''unobtainium'') False = None"
  by (simp add: example_defs)






section \<open>The search history\<close>

lemma process_chemical_search_history:
  "\<exists>ext. history_of (fst (process_chemical_search e s uid q c)) v = history_of s v @ ext"
  by (simp add: process_chemical_search_def history_of_def split: option.splits)

lemma button_handler_history:
  "\<exists>ext. history_of (fst (button_handler e s u b d)) v = history_of s v @ ext"
proof -
  have same: "\<exists>ext. history_of s v = history_of s v @ ext" by simp
  have fav: "history_of (s\<lparr>FAVORITES := f\<rparr>) v = history_of s v" for f
    by (simp add: history_of_def)
  show ?thesis
    using same process_chemical_search_history[of e s b _ _ v]
    by (simp add: button_handler_def Let_def case_prod_beta fav search_command_def
        compare_command_def split: option.splits)
qed

lemma process_update_history:
  "\<exists>ext. history_of (fst (process_update e s upd)) v = history_of s v @ ext"
proof (cases upd)
  case (StartCommand w)
  then show ?thesis by (simp add: process_update_def)
next
  case (TextMessage w t)
  have conv: "history_of (x\<lparr>search_conv := a\<rparr>) v = history_of x v"
    "history_of (x\<lparr>compare_conv := a\<rparr>) v = history_of x v"
    "history_of (x\<lparr>user_data := d\<rparr>) v = history_of x v" for x a d
    by (simp_all add: history_of_def)
  from TextMessage show ?thesis
    using process_chemical_search_history[of e s w t False v]
    by (simp add: process_update_text compare_first_def compare_second_def case_prod_beta conv
        split: option.splits conv_state.splits)
next
  case (CallbackQuery w b d)
  have conv: "history_of (x\<lparr>search_conv := a\<rparr>) v = history_of x v"
    "history_of (x\<lparr>compare_conv := a\<rparr>) v = history_of x v" for x a
    by (simp_all add: history_of_def)
  from CallbackQuery show ?thesis
    by (simp add: process_update_def check_search_callback check_compare_callback
        search_command_def compare_command_def show_main_menu_callback_def conv
        button_handler_history split: option.splits)
qed

lemma run_history: "\<exists>ext. history_of (run s evs) v = history_of s v @ ext"
proof (induction evs arbitrary: s)
  case Nil
  show ?case by simp
next
  case (Cons ev evs)
  obtain e upd where ev: "ev = (e, upd)" by (cases ev)
  obtain ext1 where 1: "history_of (fst (process_update e s upd)) v = history_of s v @ ext1"
    using process_update_history by blast
  obtain ext2 where 2: "history_of (run (fst (process_update e s upd)) evs) v =
      history_of (fst (process_update e s upd)) v @ ext2"
    using Cons.IH by blast
  from 1 2 ev show ?case by simp
qed

lemma show_history_display:
  "show_history s upd u =
     (if history_of s u = [] then show_main_menu upd HistoryEmpty
      else [EditOrReply HistoryTitle
              (map (\<lambda>item. [CallbackButton (Plain (h_name item))
                               (''history_'' @ py_str (h_cid item))])
                 (take 5 (rev (history_of s u))) @
               [[CallbackButton BackLabel ''back_to_menu'']])])"
  by (simp add: show_history_def history_of_def history_slice_def take_rev split: option.splits)

lemma idle_text_entry:
  assumes "search_conv s u = None" "compare_conv s u = None"
  shows "process_update e s (TextMessage u t) = process_chemical_search e s u t False"
  using assms by (simp add: process_update_text)

lemma idle_run:
  assumes "search_conv s u = None" "compare_conv s u = None"
  shows "history_of (run s (text_entries u ts)) u = history_of s u @ recorded ts"
  using assms
proof (induction ts arbitrary: s)
  case Nil
  then show ?case by (simp add: text_entries_def recorded_def List.map_filter_simps)
next
  case (Cons a ts)
  obtain e t where a: "a = (e, t)" by (cases a)
  let ?s' = "fst (process_chemical_search e s u t False)"
  have step: "fst (process_update e s (TextMessage u t)) = ?s'"
    using Cons.prems by (simp add: idle_text_entry)
  have "search_conv ?s' u = None" "compare_conv ?s' u = None"
    using Cons.prems by (simp_all add: process_chemical_search_frame)
  then have "history_of (run ?s' (text_entries u ts)) u = history_of ?s' u @ recorded ts"
    by (rule Cons.IH)
  moreover have "history_of ?s' u = history_of s u @ recorded [(e, t)]"
    by (simp add: process_chemical_search_def history_of_def recorded_def
        List.map_filter_simps split: option.splits)
  moreover have "recorded (a # ts) = recorded [(e, t)] @ recorded ts"
    by (simp add: a recorded_def List.map_filter_simps split: option.splits)
  ultimately show ?case
    using step a by (simp add: text_entries_def)
qed


lemma history_button:
  "process_update e s (CallbackQuery u b ''history'') =
     (s, Answer None # show_history s (CallbackQuery u b ''history'') u)"
  by (simp add: process_update_button button_handler_def)

lemma example_now: "now_timestamp example_env = 1700000000"
  by (simp add: example_env_def)

lemma recorded_seven:
  "recorded seven_entries =
     [aspirin_entry, glycine_entry, aspirin_entry, glycine_entry, aspirin_entry, glycine_entry]"
  by (simp add: recorded_def seven_entries_def List.map_filter_simps example_search_aspirin
      example_search_glycine example_not_found aspirin_entry_def glycine_entry_def
      aspirin_record_def glycine_record_def example_now)

text \<open>
  C7. Along any run of updates the stored history of every user only grows at its
  end: nothing is dropped when an entry is written. For an idle user, a run of text
  entries appends one entry for each entry that is found, in order. The history
  button shows the last five stored entries, the most recent first (\<open>take 5\<close> of the
  reversed history), so never more than five; the cut to five is made only there.
\<close>

theorem history_kept_whole_shown_by_five:
  "(\<exists>ext. history_of (run s evs) v = history_of s v @ ext)
   \<and> (search_conv s u = None \<and> compare_conv s u = None \<longrightarrow>
        history_of (run s (text_entries u ts)) u = history_of s u @ recorded ts)
   \<and> process_update e s (CallbackQuery u b ''history'') =
        (s, Answer None # show_history s (CallbackQuery u b ''history'') u)
   \<and> show_history s upd u =
        (if history_of s u = [] then show_main_menu upd HistoryEmpty
         else [EditOrReply HistoryTitle
                 (map (\<lambda>item. [CallbackButton (Plain (h_name item))
                                  (''history_'' @ py_str (h_cid item))])
                    (take 5 (rev (history_of s u))) @
                  [[CallbackButton BackLabel ''back_to_menu'']])])"
  using run_history[of s evs v] idle_run[of s u ts] history_button[of e s u b]
    show_history_display[of s upd u]
  by blast

theorem history_kept_whole_shown_by_five_witness:
  "search_conv initial_state 7 = None \<and> compare_conv initial_state 7 = None
   \<and> history_of (run initial_state (text_entries 7 seven_entries)) 7 =
       [aspirin_entry, glycine_entry, aspirin_entry, glycine_entry, aspirin_entry,
        glycine_entry]
   \<and> show_history (run initial_state (text_entries 7 seven_entries))
        (CallbackQuery 7 99 ''history'') 7 =
       [EditOrReply HistoryTitle
          [[CallbackButton (Plain ''glycine'') ''history_750''],
           [CallbackButton (Plain ''aspirin'') ''history_2244''],
           [CallbackButton (Plain ''glycine'') ''history_750''],
           [CallbackButton (Plain ''aspirin'') ''history_2244''],
           [CallbackButton (Plain ''glycine'') ''history_750''],
           [CallbackButton BackLabel ''back_to_menu'']]]"
proof -
  have idle: "search_conv initial_state 7 = None" "compare_conv initial_state 7 = None"
    by (simp_all add: initial_state_def)
  have empty: "history_of initial_state 7 = []"
    by (simp add: history_of_def initial_state_def)
  from history_kept_whole_shown_by_five[of initial_state evs v 7 seven_entries e b upd
      for evs v e b upd] idle
  have stored: "history_of (run initial_state (text_entries 7 seven_entries)) 7 =
      [aspirin_entry, glycine_entry, aspirin_entry, glycine_entry, aspirin_entry,
       glycine_entry]"
    by (simp add: empty recorded_seven)
  from history_kept_whole_shown_by_five[of "run initial_state (text_entries 7 seven_entries)"
      evs v 7 ts e b "CallbackQuery 7 99 ''history''" for evs v ts e b]
  have "show_history (run initial_state (text_entries 7 seven_entries))
        (CallbackQuery 7 99 ''history'') 7 =
       [EditOrReply HistoryTitle
          [[CallbackButton (Plain ''glycine'') ''history_750''],
           [CallbackButton (Plain ''aspirin'') ''history_2244''],
           [CallbackButton (Plain ''glycine'') ''history_750''],
           [CallbackButton (Plain ''aspirin'') ''history_2244''],
           [CallbackButton (Plain ''glycine'') ''history_750''],
           [CallbackButton BackLabel ''back_to_menu'']]]"
    by (simp add: stored aspirin_entry_def glycine_entry_def str_2244 str_750)
  with idle stored show ?thesis by simp
qed

section \<open>Favorites\<close>

lemma save_token_found:
  assumes "search_compound e (IdStr (py_str_int n)) True = Some r"
  shows "process_update e s (CallbackQuery u b (''save_'' @ py_str_int n)) =
           (s\<lparr>FAVORITES := (FAVORITES s)
                 (u \<mapsto> AList.update (py_str_int n) (Name r) (favorites_of s u))\<rparr>,
            [Answer None, Answer (Some (Saved (Name r)))])"
proof -
  have route: "process_update e s (CallbackQuery u b (''save_'' @ py_str_int n)) =
      button_handler e s u b (''save_'' @ py_str_int n)"
    by (rule process_update_token) simp
  show ?thesis
    unfolding route button_save_token strip_save using assms
    by (simp add: favorites_of_def Let_def)
qed

lemma remove_token_present:
  assumes "map_of (favorites_of s u) (py_str_int n) = Some name"
  shows "process_update e s (CallbackQuery u b (''remove_'' @ py_str_int n)) =
           (s\<lparr>FAVORITES := (FAVORITES s)
                 (u \<mapsto> AList.delete (py_str_int n) (favorites_of s u))\<rparr>,
            [Answer None, Answer (Some (Removed name))] @
            show_favorites
              (s\<lparr>FAVORITES := (FAVORITES s)
                   (u \<mapsto> AList.delete (py_str_int n) (favorites_of s u))\<rparr>)
              (CallbackQuery u b (''remove_'' @ py_str_int n)) u)"
proof -
  have route: "process_update e s (CallbackQuery u b (''remove_'' @ py_str_int n)) =
      button_handler e s u b (''remove_'' @ py_str_int n)"
    by (rule process_update_token) simp
  show ?thesis
    unfolding route button_remove_token strip_remove using assms
    by (auto simp add: favorites_of_def Let_def split: option.splits)
qed

lemma remove_token_absent:
  assumes "map_of (favorites_of s u) (py_str_int n) = None"
  shows "process_update e s (CallbackQuery u b (''remove_'' @ py_str_int n)) = (s, [Answer None])"
proof -
  have route: "process_update e s (CallbackQuery u b (''remove_'' @ py_str_int n)) =
      button_handler e s u b (''remove_'' @ py_str_int n)"
    by (rule process_update_token) simp
  show ?thesis
    unfolding route button_remove_token strip_remove using assms
    by (auto simp add: favorites_of_def Let_def split: option.splits)
qed

lemma favorites_of_set [simp]:
  "favorites_of (s\<lparr>FAVORITES := (FAVORITES s)(u \<mapsto> f)\<rparr>) u = f"
  by (simp add: favorites_of_def)

text \<open>
  C8. For an identifier \<open>n\<close> whose lookup gives a record \<open>r\<close>: after \<open>save_n\<close> the
  user's favorites hold the name of \<open>r\<close> under \<open>n\<close>, and saving again changes nothing;
  \<open>remove_n\<close> then answers with that stored name and takes the entry out; a second
  \<open>remove_n\<close> finds nothing, answers the query with no text, changes nothing and does
  not fail. Removing an identifier that is not among the favorites likewise changes
  nothing.
\<close>

theorem favorites_add_remove:
  "(search_compound e (IdStr (py_str_int n)) True = Some r \<longrightarrow>
      (let save = CallbackQuery u b (''save_'' @ py_str_int n);
           remove = CallbackQuery u b (''remove_'' @ py_str_int n);
           s1 = fst (process_update e s save);
           s2 = fst (process_update e s1 remove)
       in map_of (favorites_of s1 u) (py_str_int n) = Some (Name r)
          \<and> process_update e s1 save = (s1, [Answer None, Answer (Some (Saved (Name r)))])
          \<and> snd (process_update e s1 remove) =
               [Answer None, Answer (Some (Removed (Name r)))] @ show_favorites s2 remove u
          \<and> map_of (favorites_of s2 u) (py_str_int n) = None
          \<and> process_update e s2 remove = (s2, [Answer None])))
   \<and> (map_of (favorites_of s u) (py_str_int n) = None \<longrightarrow>
        process_update e s (CallbackQuery u b (''remove_'' @ py_str_int n)) =
          (s, [Answer None]))"
proof (intro conjI impI)
  assume found: "search_compound e (IdStr (py_str_int n)) True = Some r"
  define c where "c = py_str_int n"
  define save where "save = CallbackQuery u b (''save_'' @ py_str_int n)"
  define remove where "remove = CallbackQuery u b (''remove_'' @ py_str_int n)"
  define s1 where
    "s1 = s\<lparr>FAVORITES := (FAVORITES s)(u \<mapsto> AList.update c (Name r) (favorites_of s u))\<rparr>"
  define s2 where
    "s2 = s1\<lparr>FAVORITES := (FAVORITES s1)(u \<mapsto> AList.delete c (favorites_of s1 u))\<rparr>"
  have step1: "process_update e s save = (s1, [Answer None, Answer (Some (Saved (Name r)))])"
    unfolding save_def s1_def c_def using found by (rule save_token_found)
  have fav1: "favorites_of s1 u = AList.update c (Name r) (favorites_of s u)"
    by (simp add: s1_def)
  then have has1: "map_of (favorites_of s1 u) c = Some (Name r)"
    by (simp add: update_conv')
  have again: "process_update e s1 save = (s1, [Answer None, Answer (Some (Saved (Name r)))])"
  proof -
    have "process_update e s1 save =
        (s1\<lparr>FAVORITES := (FAVORITES s1)(u \<mapsto> AList.update c (Name r) (favorites_of s1 u))\<rparr>,
         [Answer None, Answer (Some (Saved (Name r)))])"
      unfolding save_def c_def using found by (rule save_token_found)
    moreover have "s1\<lparr>FAVORITES := (FAVORITES s1)
        (u \<mapsto> AList.update c (Name r) (favorites_of s1 u))\<rparr> = s1"
      by (simp add: fav1) (simp add: s1_def)
    ultimately show ?thesis by simp
  qed
  have step2: "process_update e s1 remove =
      (s2, [Answer None, Answer (Some (Removed (Name r)))] @ show_favorites s2 remove u)"
    unfolding remove_def s2_def c_def
    using has1[unfolded c_def] by (rule remove_token_present)
  have fav2: "map_of (favorites_of s2 u) c = None"
    by (simp add: s2_def delete_conv')
  have step3: "process_update e s2 remove = (s2, [Answer None])"
    unfolding remove_def using fav2[unfolded c_def] by (rule remove_token_absent)
  show "let save = CallbackQuery u b (''save_'' @ py_str_int n);
            remove = CallbackQuery u b (''remove_'' @ py_str_int n);
            s1 = fst (process_update e s save);
            s2 = fst (process_update e s1 remove)
        in map_of (favorites_of s1 u) (py_str_int n) = Some (Name r)
           \<and> process_update e s1 save = (s1, [Answer None, Answer (Some (Saved (Name r)))])
           \<and> snd (process_update e s1 remove) =
                [Answer None, Answer (Some (Removed (Name r)))] @ show_favorites s2 remove u
           \<and> map_of (favorites_of s2 u) (py_str_int n) = None
           \<and> process_update e s2 remove = (s2, [Answer None])"
    unfolding Let_def save_def[symmetric] remove_def[symmetric]
    using step1 again step2 step3 has1 fav2
    by (simp add: c_def)
next
  assume "map_of (favorites_of s u) (py_str_int n) = None"
  then show "process_update e s (CallbackQuery u b (''remove_'' @ py_str_int n)) =
      (s, [Answer None])"
    by (rule remove_token_absent)
qed


theorem favorites_add_remove_witness:
  "search_compound example_env (IdStr (py_str_int 2244)) True =
     Some (aspirin_record\<lparr>CID := IdStr ''2244'', Name := ''2-acetyloxybenzoic acid''\<rparr>)
   \<and> map_of (favorites_of initial_state 7) (py_str_int 2244) = None
   \<and> process_update example_env initial_state (CallbackQuery 7 99 (''remove_'' @ py_str_int 2244)) =
       (initial_state, [Answer None])
   \<and> map_of (favorites_of
         (fst (process_update example_env initial_state
                 (CallbackQuery 7 99 (''save_'' @ py_str_int 2244)))) 7) (py_str_int 2244) =
       Some ''2-acetyloxybenzoic acid''
   \<and> take 2 (snd (process_update example_env
         (fst (process_update example_env initial_state
                 (CallbackQuery 7 99 (''save_'' @ py_str_int 2244))))
         (CallbackQuery 7 99 (''remove_'' @ py_str_int 2244)))) =
       [Answer None, Answer (Some (Removed ''2-acetyloxybenzoic acid''))]"
proof -
  have found: "search_compound example_env (IdStr (py_str_int 2244)) True =
      Some (aspirin_record\<lparr>CID := IdStr ''2244'', Name := ''2-acetyloxybenzoic acid''\<rparr>)"
    by (simp only: str_2244 example_by_cid)
  have absent: "map_of (favorites_of initial_state 7) (py_str_int 2244) = None"
    by (simp add: favorites_of_def initial_state_def)
  from favorites_add_remove[of example_env 2244
      "aspirin_record\<lparr>CID := IdStr ''2244'', Name := ''2-acetyloxybenzoic acid''\<rparr>"
      7 99 initial_state] found absent
  show ?thesis
    by (simp add: Let_def)
qed

section \<open>History tokens\<close>

lemma history_token_lookup:
  "process_update e s (CallbackQuery u b (''history_'' @ py_str_int n)) =
     (case process_chemical_search e s b (py_str_int n) True of
        (s', outs) \<Rightarrow> (s', Answer None # outs))"
proof -
  have route: "process_update e s (CallbackQuery u b (''history_'' @ py_str_int n)) =
      button_handler e s u b (''history_'' @ py_str_int n)"
    by (rule process_update_token) simp
  show ?thesis
    unfolding route button_history_token strip_history by (rule refl)
qed

lemma by_cid_result:
  "search_compound e (IdStr c) True = Some r \<Longrightarrow> CID r = IdStr c"
  by (auto simp add: search_compound_def Let_def
      split: response.splits if_splits body.splits)

lemma by_name_result:
  "search_compound e q False = Some r \<Longrightarrow> \<exists>n. CID r = IdInt n"
  by (auto simp add: search_compound_def Let_def
      split: response.splits if_splits body.splits list.splits)

lemma by_name_name:
  "search_compound e (IdStr t) False = Some r \<Longrightarrow> Name r = t"
  by (auto simp add: search_compound_def Let_def
      split: response.splits if_splits body.splits list.splits)

lemma shown_first:
  assumes "history_of s u = h @ [item]"
  shows "\<exists>rows. show_history s upd u =
           [EditOrReply HistoryTitle
              ([CallbackButton (Plain (h_name item)) (''history_'' @ py_str (h_cid item))] # rows)]"
proof -
  have "take 5 (rev (history_of s u)) = item # take 4 (rev h)"
    by (simp add: assms)
  then show ?thesis
    by (simp add: show_history_display assms)
qed

lemma idle_search_recorded:
  assumes "search_compound e (IdStr t) False = Some r"
  shows "history_of (fst (process_update e (with_conv s u None None) (TextMessage u t))) u =
           history_of s u @ [\<lparr>h_name = Name r, h_cid = CID r, h_time = now_timestamp e\<rparr>]"
  using assms
  by (simp add: idle_text_entry process_chemical_search_def history_of_def)


lemma shown_item:
  assumes "item \<in> set (take 5 (rev (history_of s u)))"
  shows "\<exists>pre post. show_history s upd u =
           [EditOrReply HistoryTitle
              (pre @ [CallbackButton (Plain (h_name item))
                        (''history_'' @ py_str (h_cid item))] # post)]"
proof -
  from assms have nonempty: "history_of s u \<noteq> []" by auto
  from assms obtain xs ys where split: "take 5 (rev (history_of s u)) = xs @ item # ys"
    by (auto simp: in_set_conv_decomp)
  let ?row = "\<lambda>item. [CallbackButton (Plain (h_name item)) (''history_'' @ py_str (h_cid item))]"
  have "show_history s upd u =
      [EditOrReply HistoryTitle
         (map ?row xs @ ?row item # (map ?row ys @ [[CallbackButton BackLabel ''back_to_menu'']]))]"
    using nonempty by (simp add: show_history_display split)
  then show ?thesis by blast
qed

lemma seven_stored:
  "history_of (run initial_state (text_entries 7 seven_entries)) 7 =
     [aspirin_entry, glycine_entry, aspirin_entry, glycine_entry, aspirin_entry, glycine_entry]"
proof -
  have "search_conv initial_state 7 = None" "compare_conv initial_state 7 = None"
    by (simp_all add: initial_state_def)
  then have "history_of (run initial_state (text_entries 7 seven_entries)) 7 =
      history_of initial_state 7 @ recorded seven_entries"
    by (rule idle_run)
  then show ?thesis
    by (simp add: recorded_seven history_of_def initial_state_def)
qed

text \<open>
  C9. Every entry that the history view shows, with an integer identifier \<open>n\<close>, is
  shown as a button whose token is \<open>history_\<close> followed by the decimal digits of
  \<open>n\<close>; a record found by a text search of an idle user has an integer identifier
  and is shown first, with such a token. Feeding the token \<open>history_n\<close> back is
  handled, in every state, as \<open>process_chemical_search\<close> by identifier with the query
  \<open>str(n)\<close>: the identifier is cut out of the token exactly, and a record found
  for it carries that identifier.
\<close>

theorem history_token_round_trip:
  "(item \<in> set (take 5 (rev (history_of s u))) \<and> h_cid item = IdInt n \<longrightarrow>
      (\<exists>pre post. show_history s upd u =
         [EditOrReply HistoryTitle
            (pre @ [CallbackButton (Plain (h_name item)) (''history_'' @ py_str_int n)] # post)]))
   \<and> (search_compound e (IdStr t) False = Some r \<longrightarrow>
        (\<exists>m rows. CID r = IdInt m \<and>
           show_history (fst (process_update e (with_conv s u None None) (TextMessage u t)))
               upd u =
             [EditOrReply HistoryTitle
                ([CallbackButton (Plain t) (''history_'' @ py_str_int m)] # rows)]))
   \<and> process_update e s (CallbackQuery u b (''history_'' @ py_str_int n)) =
        (case process_chemical_search e s b (py_str_int n) True of
           (s', outs) \<Rightarrow> (s', Answer None # outs))
   \<and> (search_compound e (IdStr (py_str_int n)) True = Some found \<longrightarrow>
        CID found = IdStr (py_str_int n) \<and> py_str (CID found) = py_str_int n)"
proof (intro conjI impI)
  assume a: "item \<in> set (take 5 (rev (history_of s u))) \<and> h_cid item = IdInt n"
  then have "item \<in> set (take 5 (rev (history_of s u)))" by simp
  then have "\<exists>pre post. show_history s upd u =
      [EditOrReply HistoryTitle
         (pre @ [CallbackButton (Plain (h_name item)) (''history_'' @ py_str (h_cid item))] # post)]"
    by (rule shown_item)
  with a show "\<exists>pre post. show_history s upd u =
      [EditOrReply HistoryTitle
         (pre @ [CallbackButton (Plain (h_name item)) (''history_'' @ py_str_int n)] # post)]"
    by simp
next
  assume found: "search_compound e (IdStr t) False = Some r"
  then obtain m where m: "CID r = IdInt m"
    using by_name_result by blast
  from found have name: "Name r = t" by (rule by_name_name)
  let ?s' = "fst (process_update e (with_conv s u None None) (TextMessage u t))"
  from found have "history_of ?s' u =
      history_of s u @ [\<lparr>h_name = Name r, h_cid = CID r, h_time = now_timestamp e\<rparr>]"
    by (rule idle_search_recorded)
  then have "\<exists>rows. show_history ?s' upd u =
      [EditOrReply HistoryTitle
         ([CallbackButton (Plain (h_name \<lparr>h_name = Name r, h_cid = CID r, h_time = now_timestamp e\<rparr>))
             (''history_'' @ py_str (h_cid \<lparr>h_name = Name r, h_cid = CID r, h_time = now_timestamp e\<rparr>))]
          # rows)]"
    by (rule shown_first)
  with m name show "\<exists>m rows. CID r = IdInt m \<and>
      show_history ?s' upd u =
        [EditOrReply HistoryTitle ([CallbackButton (Plain t) (''history_'' @ py_str_int m)] # rows)]"
    by simp
next
  show "process_update e s (CallbackQuery u b (''history_'' @ py_str_int n)) =
      (case process_chemical_search e s b (py_str_int n) True of
         (s', outs) \<Rightarrow> (s', Answer None # outs))"
    by (rule history_token_lookup)
next
  assume "search_compound e (IdStr (py_str_int n)) True = Some found"
  then show "CID found = IdStr (py_str_int n)" by (rule by_cid_result)
next
  assume "search_compound e (IdStr (py_str_int n)) True = Some found"
  then have "CID found = IdStr (py_str_int n)" by (rule by_cid_result)
  then show "py_str (CID found) = py_str_int n" by simp
qed

theorem history_token_round_trip_witness:
  "glycine_entry \<in> set (take 5 (rev (history_of (run initial_state (text_entries 7 seven_entries)) 7)))
   \<and> h_cid glycine_entry = IdInt 750
   \<and> (\<exists>pre post. show_history (run initial_state (text_entries 7 seven_entries))
          (CallbackQuery 7 99 ''history'') 7 =
        [EditOrReply HistoryTitle
           (pre @ [CallbackButton (Plain (h_name glycine_entry))
                     (''history_'' @ py_str_int 750)] # post)])
   \<and> search_compound example_env (IdStr ''aspirin'') False = Some aspirin_record
   \<and> (\<exists>m rows. CID aspirin_record = IdInt m \<and>
         show_history
           (fst (process_update example_env (with_conv initial_state 7 None None)
                   (TextMessage 7 ''aspirin'')))
           (CallbackQuery 7 99 ''history'') 7 =
         [EditOrReply HistoryTitle
            ([CallbackButton (Plain ''aspirin'') (''history_'' @ py_str_int m)] # rows)])
   \<and> process_update example_env initial_state (CallbackQuery 7 99 (''history_'' @ py_str_int 2244)) =
       (case process_chemical_search example_env initial_state 99 (py_str_int 2244) True of
          (s', outs) \<Rightarrow> (s', Answer None # outs))
   \<and> search_compound example_env (IdStr (py_str_int 2244)) True =
       Some (aspirin_record\<lparr>CID := IdStr ''2244'', Name := ''2-acetyloxybenzoic acid''\<rparr>)
   \<and> py_str (CID (aspirin_record\<lparr>CID := IdStr ''2244'', Name := ''2-acetyloxybenzoic acid''\<rparr>)) =
       py_str_int 2244"
proof -
  have shown: "glycine_entry \<in>
      set (take 5 (rev (history_of (run initial_state (text_entries 7 seven_entries)) 7)))"
    by (simp add: seven_stored)
  have cid: "h_cid glycine_entry = IdInt 750"
    by (simp add: glycine_entry_def)
  have by_cid: "search_compound example_env (IdStr (py_str_int 2244)) True =
      Some (aspirin_record\<lparr>CID := IdStr ''2244'', Name := ''2-acetyloxybenzoic acid''\<rparr>)"
    by (simp only: str_2244 example_by_cid)
  from history_token_round_trip[of glycine_entry
      "run initial_state (text_entries 7 seven_entries)" 7 750 "CallbackQuery 7 99 ''history''"
      e t r b found for e t r b found] shown cid
  have part1: "\<exists>pre post. show_history (run initial_state (text_entries 7 seven_entries))
        (CallbackQuery 7 99 ''history'') 7 =
      [EditOrReply HistoryTitle
         (pre @ [CallbackButton (Plain (h_name glycine_entry))
                   (''history_'' @ py_str_int 750)] # post)]"
    by blast
  from history_token_round_trip[of item initial_state 7 2244 "CallbackQuery 7 99 ''history''"
      example_env "''aspirin''" aspirin_record 99
      "aspirin_record\<lparr>CID := IdStr ''2244'', Name := ''2-acetyloxybenzoic acid''\<rparr>" for item]
    example_search_aspirin by_cid
  have part2: "(\<exists>m rows. CID aspirin_record = IdInt m \<and>
         show_history
           (fst (process_update example_env (with_conv initial_state 7 None None)
                   (TextMessage 7 ''aspirin'')))
           (CallbackQuery 7 99 ''history'') 7 =
         [EditOrReply HistoryTitle
            ([CallbackButton (Plain ''aspirin'') (''history_'' @ py_str_int m)] # rows)])
     \<and> process_update example_env initial_state
         (CallbackQuery 7 99 (''history_'' @ py_str_int 2244)) =
       (case process_chemical_search example_env initial_state 99 (py_str_int 2244) True of
          (s', outs) \<Rightarrow> (s', Answer None # outs))
     \<and> py_str (CID (aspirin_record\<lparr>CID := IdStr ''2244'',
          Name := ''2-acetyloxybenzoic acid''\<rparr>)) = py_str_int 2244"
    by blast
  from shown cid part1 part2 example_search_aspirin by_cid show ?thesis
    by blast
qed

end
